theory Spec2Isabelle
  imports Complex_Main "HOL-Library.Sublist"
begin

section \<open>JavaScript values used by script.js\<close>

text \<open>
  Numbers. A JavaScript number is an IEEE double: a finite value (kept here as the
  rational it is), \<open>NaN\<close> or an infinity. Negative zero is not told apart from zero:
  the program only compares numbers, and the two compare equal.
\<close>

datatype jsnum = NaN | Num rat | PosInfinity | NegInfinity

text \<open>The comparison \<open>a <= b\<close>: false as soon as one side is \<open>NaN\<close>.\<close>

fun num_le :: "jsnum \<Rightarrow> jsnum \<Rightarrow> bool" where
  "num_le (Num a) (Num b) = (a \<le> b)"
| "num_le NaN _ = False"
| "num_le _ NaN = False"
| "num_le NegInfinity _ = True"
| "num_le _ PosInfinity = True"
| "num_le _ _ = False"

text \<open>The comparison \<open>a >= b\<close>.\<close>

definition num_ge :: "jsnum \<Rightarrow> jsnum \<Rightarrow> bool" where
  "num_ge a b = num_le b a"

text \<open>
  The store's own order of numbers, in which a \<open>where('price', '>=', n)\<close> clause is
  answered: \<open>NaN\<close> stands below every number, so every number is at least \<open>NaN\<close>.
\<close>

fun store_ge :: "jsnum \<Rightarrow> jsnum \<Rightarrow> bool" where
  "store_ge v NaN = True"
| "store_ge NaN b = False"
| "store_ge v b = num_le b v"

subsection \<open>Rounding to a double\<close>

text \<open>
  The number value of the decimal \<open>m * 10^e\<close>: the double nearest to it, ties to
  the even significand, with 53 bits of significand, gradual underflow below
  \<open>2^-1022\<close> and overflow to infinity from \<open>2^1024\<close>. The decimal is the
  fraction \<open>p / q\<close> of two naturals.
\<close>

fun bitLength :: "nat \<Rightarrow> int" where
  "bitLength n = (if n = 0 then 0 else 1 + bitLength (n div 2))"

declare bitLength.simps [simp del]

text \<open>\<open>2^k\<close> for \<open>k >= 0\<close>, and 1 for a negative \<open>k\<close>.\<close>

definition pow2 :: "int \<Rightarrow> nat" where
  "pow2 k = 2 ^ nat k"

text \<open>The exponent \<open>e\<close> with \<open>2^e <= p / q < 2^(e+1)\<close>, for positive \<open>p\<close> and \<open>q\<close>.\<close>

definition floorLog2 :: "nat \<Rightarrow> nat \<Rightarrow> int" where
  "floorLog2 p q =
     (let e0 = bitLength p - bitLength q
      in if q * pow2 e0 \<le> p * pow2 (- e0) then e0 else e0 - 1)"

text \<open>The integer nearest to \<open>n / d\<close>, a tie going to the even one.\<close>

definition roundHalfEven :: "nat \<Rightarrow> nat \<Rightarrow> nat" where
  "roundHalfEven n d =
     (let k = n div d; r = n mod d
      in if 2 * r < d then k
         else if d < 2 * r then k + 1
         else if even k then k else k + 1)"

definition toDouble :: "bool \<Rightarrow> nat \<Rightarrow> nat \<Rightarrow> jsnum" where
  "toDouble neg p q =
     (if p = 0 then Num 0
      else
        (let k = max (floorLog2 p q) (- 1022) - 52;
             m = roundHalfEven (p * pow2 (- k)) (q * pow2 k)
         in if pow2 1024 * pow2 (- k) \<le> m * pow2 k
            then (if neg then NegInfinity else PosInfinity)
            else Num ((if neg then - 1 else 1) * of_nat (m * pow2 k) / of_nat (pow2 (- k)))))"

definition decimalToDouble :: "bool \<Rightarrow> nat \<Rightarrow> int \<Rightarrow> jsnum" where
  "decimalToDouble neg m e = toDouble neg (m * 10 ^ nat e) (10 ^ nat (- e))"

subsection \<open>Other values and strings\<close>

text \<open>
  Values a property of an object can hold, as far as the favorites markers need them,
  with JavaScript's truthiness (\<open>if (v)\<close>). \<open>JObject\<close> stands for any object or
  function, such as the members every plain object inherits. An absent property
  (\<open>undefined\<close>) is the \<open>None\<close> of a lookup and is falsy.
\<close>

datatype jsval = JBool bool | JNumber jsnum | JString string | JNull | JObject

fun truthy_val :: "jsval \<Rightarrow> bool" where
  "truthy_val (JBool b) = b"
| "truthy_val (JNumber n) = (n \<noteq> NaN \<and> n \<noteq> Num 0)"
| "truthy_val (JString s) = (s \<noteq> [])"
| "truthy_val JNull = False"
| "truthy_val JObject = True"

text \<open>
  Strings are lists of characters; a character is a code unit below 256 (the Latin-1
  range). A field of the query state or an identity that may be \<open>undefined\<close> or
  \<open>null\<close> is a \<open>string option\<close>; such a value is truthy when it is a non-empty
  string.
\<close>

definition truthy :: "string option \<Rightarrow> bool" where
  "truthy s = (case s of None \<Rightarrow> False | Some t \<Rightarrow> t \<noteq> [])"

text \<open>
  \<open>String.prototype.toLowerCase\<close>: an upper-case letter (\<open>A\<close> to \<open>Z\<close>, and the
  accented capitals U+00C0 to U+00DE but for the multiplication sign U+00D7) is replaced
  by its lower-case letter, every other character is kept.
\<close>

definition upperLetters :: string where
  "upperLetters =
     ''ABCDEFGHIJKLMNOPQRSTUVWXYZ'' @
     [CHR 0xC0, CHR 0xC1, CHR 0xC2, CHR 0xC3, CHR 0xC4, CHR 0xC5, CHR 0xC6, CHR 0xC7,
      CHR 0xC8, CHR 0xC9, CHR 0xCA, CHR 0xCB, CHR 0xCC, CHR 0xCD, CHR 0xCE, CHR 0xCF,
      CHR 0xD0, CHR 0xD1, CHR 0xD2, CHR 0xD3, CHR 0xD4, CHR 0xD5, CHR 0xD6,
      CHR 0xD8, CHR 0xD9, CHR 0xDA, CHR 0xDB, CHR 0xDC, CHR 0xDD, CHR 0xDE]"

definition lowerLetters :: string where
  "lowerLetters =
     ''abcdefghijklmnopqrstuvwxyz'' @
     [CHR 0xE0, CHR 0xE1, CHR 0xE2, CHR 0xE3, CHR 0xE4, CHR 0xE5, CHR 0xE6, CHR 0xE7,
      CHR 0xE8, CHR 0xE9, CHR 0xEA, CHR 0xEB, CHR 0xEC, CHR 0xED, CHR 0xEE, CHR 0xEF,
      CHR 0xF0, CHR 0xF1, CHR 0xF2, CHR 0xF3, CHR 0xF4, CHR 0xF5, CHR 0xF6,
      CHR 0xF8, CHR 0xF9, CHR 0xFA, CHR 0xFB, CHR 0xFC, CHR 0xFD, CHR 0xFE]"

definition lowerChar :: "char \<Rightarrow> char" where
  "lowerChar c =
     (case map_of (zip upperLetters lowerLetters) c of None \<Rightarrow> c | Some d \<Rightarrow> d)"

definition toLowerCase :: "string \<Rightarrow> string" where
  "toLowerCase s = map lowerChar s"

text \<open>\<open>s.includes(t)\<close>: \<open>t\<close> occurs in \<open>s\<close> as a contiguous substring.\<close>

fun str_includes :: "string \<Rightarrow> string \<Rightarrow> bool" where
  "str_includes [] t = (t = [])"
| "str_includes (c # cs) t = (prefix t (c # cs) \<or> str_includes cs t)"

subsection \<open>parseInt and parseFloat\<close>

text \<open>
  White space that \<open>parseInt\<close> and \<open>parseFloat\<close> skip: tab, line feed, vertical
  tab, form feed, carriage return, space and the no-break space.
\<close>

definition isWhiteSpace :: "char \<Rightarrow> bool" where
  "isWhiteSpace c =
     (c \<in> set [CHR 0x09, CHR 0x0A, CHR 0x0B, CHR 0x0C, CHR 0x0D, CHR '' '', CHR 0xA0])"

text \<open>The value of a digit: \<open>0\<close> to \<open>9\<close>, then the letters from 10, in either case.\<close>

definition digitValue :: "char \<Rightarrow> nat option" where
  "digitValue c =
     map_of
       (zip ''0123456789abcdefghijklmnopqrstuvwxyz''
          [0, 1, 2, 3, 4, 5, 6, 7, 8, 9, 10, 11, 12, 13, 14, 15, 16, 17, 18, 19, 20, 21, 22,
           23, 24, 25, 26, 27, 28, 29, 30, 31, 32, 33, 34, 35] @
        zip ''ABCDEFGHIJKLMNOPQRSTUVWXYZ''
          [10, 11, 12, 13, 14, 15, 16, 17, 18, 19, 20, 21, 22,
           23, 24, 25, 26, 27, 28, 29, 30, 31, 32, 33, 34, 35]) c"

definition isRadixDigit :: "nat \<Rightarrow> char \<Rightarrow> bool" where
  "isRadixDigit r c = (case digitValue c of None \<Rightarrow> False | Some d \<Rightarrow> d < r)"

definition isDigit :: "char \<Rightarrow> bool" where
  "isDigit c = isRadixDigit 10 c"

text \<open>The value of a digit string in radix \<open>r\<close>, most significant digit first.\<close>

fun mathInt :: "nat \<Rightarrow> nat \<Rightarrow> string \<Rightarrow> nat" where
  "mathInt r acc [] = acc"
| "mathInt r acc (c # cs) =
     mathInt r (acc * r + (case digitValue c of None \<Rightarrow> 0 | Some d \<Rightarrow> d)) cs"

text \<open>
  \<open>parseInt(s)\<close> with no radix argument: leading white space is skipped, a sign is
  read, a \<open>0x\<close> prefix selects radix 16, and the longest run of digits is the value,
  rounded to a double; without a digit the result is \<open>NaN\<close>. Whatever follows the
  digits is ignored.
\<close>

definition parseInt :: "string \<Rightarrow> jsnum" where
  "parseInt s =
     (let t = dropWhile isWhiteSpace s;
          neg = (take 1 t = ''-'');
          u = (if take 1 t = ''-'' \<or> take 1 t = ''+'' then drop 1 t else t);
          hex = (take 2 u = ''0x'' \<or> take 2 u = ''0X'');
          r = (if hex then 16 else 10);
          z = takeWhile (isRadixDigit r) (if hex then drop 2 u else u)
      in if z = [] then NaN else decimalToDouble neg (mathInt r 0 z) 0)"

text \<open>The exponent part \<open>e[+-]digits\<close> at the head of a string, 0 when there is none.\<close>

definition exponentPart :: "string \<Rightarrow> int" where
  "exponentPart s =
     (if take 1 s = ''e'' \<or> take 1 s = ''E'' then
        (let t = drop 1 s;
             neg = (take 1 t = ''-'');
             u = (if take 1 t = ''-'' \<or> take 1 t = ''+'' then drop 1 t else t);
             ds = takeWhile isDigit u
         in if ds = [] then 0 else (if neg then - 1 else 1) * int (mathInt 10 0 ds))
      else 0)"

text \<open>
  \<open>parseFloat(s)\<close>: leading white space is skipped, and the longest prefix that is a
  decimal literal (sign, \<open>Infinity\<close> or digits with an optional fraction and an
  optional exponent) is the value, rounded to a double; without such a prefix the
  result is \<open>NaN\<close>.
\<close>

definition parseFloat :: "string \<Rightarrow> jsnum" where
  "parseFloat s =
     (let t = dropWhile isWhiteSpace s;
          neg = (take 1 t = ''-'');
          u = (if take 1 t = ''-'' \<or> take 1 t = ''+'' then drop 1 t else t)
      in if prefix ''Infinity'' u then (if neg then NegInfinity else PosInfinity)
         else
           (let ip = takeWhile isDigit u;
                r1 = dropWhile isDigit u;
                dot = (take 1 r1 = ''.'');
                fp = (if dot then takeWhile isDigit (drop 1 r1) else []);
                r2 = (if dot then dropWhile isDigit (drop 1 r1) else r1)
            in if ip = [] \<and> fp = [] then NaN
               else decimalToDouble neg (mathInt 10 0 (ip @ fp))
                      (exponentPart r2 - int (length fp))))"

subsection \<open>Number controls of a form\<close>

text \<open>
  The text of an \<open>input type="number"\<close> is empty or a valid floating-point number:
  an optional \<open>-\<close>, then digits, or digits, a dot and digits, or a dot and digits, then
  optionally an exponent (\<open>e\<close> or \<open>E\<close>, an optional sign, digits).
\<close>

definition allDigits :: "string \<Rightarrow> bool" where
  "allDigits s = (s \<noteq> [] \<and> list_all isDigit s)"

definition validExponent :: "string \<Rightarrow> bool" where
  "validExponent r =
     (r = [] \<or>
      ((take 1 r = ''e'' \<or> take 1 r = ''E'') \<and>
       allDigits
         (if take 1 (drop 1 r) = ''-'' \<or> take 1 (drop 1 r) = ''+'' then drop 2 r
          else drop 1 r)))"

definition unsignedFloatText :: "string \<Rightarrow> bool" where
  "unsignedFloatText u =
     (if take 1 (dropWhile isDigit u) = ''.'' then
        takeWhile isDigit (drop 1 (dropWhile isDigit u)) \<noteq> [] \<and>
        validExponent (dropWhile isDigit (drop 1 (dropWhile isDigit u)))
      else takeWhile isDigit u \<noteq> [] \<and> validExponent (dropWhile isDigit u))"

definition validFloatText :: "string \<Rightarrow> bool" where
  "validFloatText s = unsignedFloatText (if take 1 s = ''-'' then drop 1 s else s)"

text \<open>
  The number such a text denotes (the control's \<open>valueAsNumber\<close>): the number of a
  valid text, \<open>NaN\<close> for any other.
\<close>

definition fieldNumber :: "string \<Rightarrow> jsnum" where
  "fieldNumber s = (if validFloatText s then parseFloat s else NaN)"

section \<open>Data model\<close>

text \<open>
  The only exception the modelled code can raise is the \<open>TypeError\<close> of reading a
  property of \<open>null\<close>.
\<close>

datatype error = TypeError

text \<open>
  The store's timestamp value: whole seconds and the nanoseconds within the second. The
  program reads the \<open>seconds\<close> only.
\<close>

record Timestamp =
  seconds :: int
  nanoseconds :: int

text \<open>
  The fields of the posting form. In the form state every field is a string
  (\<open>string adFields\<close>); \<open>handleSubmit\<close> replaces the price by a number before it
  calls \<open>postAd\<close> (\<open>jsnum adFields\<close>).
\<close>

record 'p adFields =
  title :: string
  description :: string
  price :: 'p
  category :: string
  location :: string
  imageUrl :: string

text \<open>
  A listing as the snapshot callback builds it: \<open>{id: doc.id, ...doc.data()}\<close>, where
  the document holds the posted fields, the owner \<open>userId\<close> and the server timestamp.
  The timestamp can be \<open>null\<close> (the details view reads it as \<open>ad.timestamp?.seconds\<close>).
\<close>

record ad = "jsnum adFields" +
  ad_id :: string
  ad_userId :: string
  timestamp :: "Timestamp option"

text \<open>The join adds the derived flag: \<open>{...ad, isSaved: ...}\<close>.\<close>

record annotatedAd = ad +
  isSaved :: bool

text \<open>
  The filter specification \<open>queryState\<close>. Each field is \<open>undefined\<close> (the initial
  state \<open>{}\<close>) or the string of a form control.
\<close>

record queryState =
  search :: "string option"
  category :: "string option"
  minPrice :: "string option"
  maxPrice :: "string option"

text \<open>
  Plain objects used as mappings. The own properties of the object are a map; a lookup
  \<open>obj[k]\<close> that finds no own property goes on to the members every plain object
  inherits from \<open>Object.prototype\<close>, which are objects or functions.
\<close>

definition objectPrototypeKeys :: "string list" where
  "objectPrototypeKeys =
     [''constructor'', ''hasOwnProperty'', ''isPrototypeOf'', ''propertyIsEnumerable'',
      ''toLocaleString'', ''toString'', ''valueOf'', ''__proto__'',
      ''__defineGetter__'', ''__defineSetter__'', ''__lookupGetter__'', ''__lookupSetter__'']"

definition getProperty :: "(string \<rightharpoonup> jsval) \<Rightarrow> string \<Rightarrow> jsval option" where
  "getProperty obj k =
     (case obj k of
        Some v \<Rightarrow> Some v
      | None \<Rightarrow> if k \<in> set objectPrototypeKeys then Some JObject else None)"

text \<open>
  The favorites document of one identity, \<open>{adIds: {...}}\<close>: a plain object from
  listing identifiers to markers (its own properties).
\<close>

record favoritesDoc =
  adIds :: "(string \<rightharpoonup> jsval) option"

text \<open>
  The document store: the public collection of listings and, per identity, the favorites
  document (absent until the first toggle).
\<close>

record store =
  adsCollection :: "ad list"
  favoritesDocs :: "string \<rightharpoonup> favoritesDoc"

text \<open>The database handle \<open>db\<close>; \<open>null\<close> until the application is initialised.\<close>

datatype firestore = Firestore

section \<open>The listing query engine (useAds)\<close>

text \<open>
  The query sent to the store: an optional equality on \<open>category\<close> and an optional
  lower bound on \<open>price\<close> (\<open>where('category', '==', c)\<close>,
  \<open>where('price', '>=', n)\<close>).
\<close>

record storeQuery =
  whereCategory :: "string option"
  wherePriceGe :: "jsnum option"

definition buildQuery :: "queryState \<Rightarrow> storeQuery" where
  "buildQuery qs =
     \<lparr> whereCategory =
         (case queryState.category qs of
            None \<Rightarrow> None
          | Some c \<Rightarrow> if c \<noteq> [] \<and> c \<noteq> ''All Categories'' then Some c else None),
       wherePriceGe =
         (case minPrice qs of
            None \<Rightarrow> None
          | Some m \<Rightarrow> if m \<noteq> [] then Some (parseInt m) else None) \<rparr>"

text \<open>
  The store is an external collaborator. Its contract: a snapshot of a query holds the
  documents of the collection that satisfy every \<open>where\<close> clause of the query, the
  price bound in the store's order of numbers.
\<close>

definition matches :: "storeQuery \<Rightarrow> ad \<Rightarrow> bool" where
  "matches q a =
     ((case whereCategory q of None \<Rightarrow> True | Some c \<Rightarrow> adFields.category a = c) \<and>
      (case wherePriceGe q of None \<Rightarrow> True | Some m \<Rightarrow> store_ge (price a) m))"

definition snapshotDocs :: "storeQuery \<Rightarrow> ad list \<Rightarrow> ad list" where
  "snapshotDocs q docs = filter (matches q) docs"

text \<open>The two client-side checks of the snapshot callback.\<close>

definition searchMatch :: "string option \<Rightarrow> ad \<Rightarrow> bool" where
  "searchMatch s a =
     (case s of
        None \<Rightarrow> True
      | Some t \<Rightarrow>
          t = [] \<or>
          str_includes (toLowerCase (title a)) (toLowerCase t) \<or>
          str_includes (toLowerCase (description a)) (toLowerCase t) \<or>
          str_includes (toLowerCase (location a)) (toLowerCase t))"

definition maxPriceMatch :: "string option \<Rightarrow> ad \<Rightarrow> bool" where
  "maxPriceMatch m a =
     (case m of None \<Rightarrow> True | Some t \<Rightarrow> t = [] \<or> num_le (price a) (parseInt t))"

text \<open>
  The comparator \<open>(a, b) => b.timestamp.seconds - a.timestamp.seconds\<close>. It reads
  \<open>b.timestamp.seconds\<close> first; a \<open>null\<close> timestamp raises.
\<close>

definition byNewest :: "ad \<Rightarrow> ad \<Rightarrow> error + int" where
  "byNewest a b =
     (case timestamp b of
        None \<Rightarrow> Inl TypeError
      | Some tb \<Rightarrow>
          (case timestamp a of
             None \<Rightarrow> Inl TypeError
           | Some ta \<Rightarrow> Inr (seconds tb - seconds ta)))"

text \<open>
  \<open>Array.prototype.sort\<close> with a comparator: a stable sort (an element goes before
  another when the comparator is negative, and equal elements keep their order),
  written as an insertion sort; an exception of the comparator ends the sort. An array
  of fewer than two elements is returned without a call of the comparator.
\<close>

fun insert_by :: "('a \<Rightarrow> 'a \<Rightarrow> error + int) \<Rightarrow> 'a \<Rightarrow> 'a list \<Rightarrow> error + 'a list" where
  "insert_by cmp x [] = Inr [x]"
| "insert_by cmp x (y # ys) =
     (case cmp x y of
        Inl e \<Rightarrow> Inl e
      | Inr c \<Rightarrow>
          if c \<le> 0 then Inr (x # y # ys)
          else (case insert_by cmp x ys of Inl e \<Rightarrow> Inl e | Inr zs \<Rightarrow> Inr (y # zs)))"

fun array_sort :: "('a \<Rightarrow> 'a \<Rightarrow> error + int) \<Rightarrow> 'a list \<Rightarrow> error + 'a list" where
  "array_sort cmp [] = Inr []"
| "array_sort cmp (x # xs) =
     (case array_sort cmp xs of Inl e \<Rightarrow> Inl e | Inr ys \<Rightarrow> insert_by cmp x ys)"

text \<open>
  The snapshot callback of the listings subscription: filter the fetched documents by
  search text and maximum price, then sort by newest. \<open>Inr\<close> is the list handed to
  \<open>setAds\<close>; on \<open>Inl\<close> the callback raised and \<open>setAds\<close> was not called.
\<close>

definition onSnapshot_ads :: "queryState \<Rightarrow> ad list \<Rightarrow> error + ad list" where
  "onSnapshot_ads qs fetchedAds =
     array_sort byNewest
       (filter (\<lambda>a. searchMatch (search qs) a \<and> maxPriceMatch (maxPrice qs) a) fetchedAds)"

text \<open>
  The view the engine produces for a filter specification and the documents of the
  collection: the store answers the query, the callback refines and orders the answer.
\<close>

definition useAds_view :: "queryState \<Rightarrow> ad list \<Rightarrow> error + ad list" where
  "useAds_view qs docs = onSnapshot_ads qs (snapshotDocs (buildQuery qs) docs)"

text \<open>
  The subscription effect of \<open>useAds\<close> and its dependency array
  \<open>[db, isAuthReady, userId, category, minPrice, maxPrice, search]\<close>. On a render
  the effect runs again when a dependency differs from the previous render: the old
  listener is detached, and, unless \<open>!db || !isAuthReady || !userId\<close>, the query is
  built and a new listener is attached with \<open>onSnapshot\<close>. The state records the
  dependencies of the last run, the filter specification the live listener's callback
  closes over, and every query sent to the store so far.
\<close>

type_synonym deps =
  "firestore option \<times> bool \<times> string option \<times>
   string option \<times> string option \<times> string option \<times> string option"

record adsEffect =
  lastDeps :: "deps option"
  listener :: "queryState option"
  storeQueries :: "storeQuery list"

definition mount :: adsEffect where
  "mount = \<lparr> lastDeps = None, listener = None, storeQueries = [] \<rparr>"

definition useAds_deps :: "firestore option \<Rightarrow> bool \<Rightarrow> string option \<Rightarrow> queryState \<Rightarrow> deps" where
  "useAds_deps db isAuthReady userId qs =
     (db, isAuthReady, userId,
      queryState.category qs, minPrice qs, maxPrice qs, search qs)"

definition useAds_render ::
  "firestore option \<Rightarrow> bool \<Rightarrow> string option \<Rightarrow> queryState \<Rightarrow> adsEffect \<Rightarrow> adsEffect" where
  "useAds_render db isAuthReady userId qs e =
     (if lastDeps e = Some (useAds_deps db isAuthReady userId qs) then e
      else if db = None \<or> \<not> isAuthReady \<or> \<not> truthy userId then
        \<lparr> lastDeps = Some (useAds_deps db isAuthReady userId qs),
          listener = None,
          storeQueries = storeQueries e \<rparr>
      else
        \<lparr> lastDeps = Some (useAds_deps db isAuthReady userId qs),
          listener = Some qs,
          storeQueries = storeQueries e @ [buildQuery qs] \<rparr>)"

text \<open>
  What the live listener hands to \<open>setAds\<close> when the store reports the documents
  \<open>docs\<close> of the collection; nothing without a listener.
\<close>

definition useAds_ads :: "adsEffect \<Rightarrow> ad list \<Rightarrow> (error + ad list) option" where
  "useAds_ads e docs =
     (case listener e of None \<Rightarrow> None | Some qs \<Rightarrow> Some (useAds_view qs docs))"

text \<open>
  The state of the effect is coherent: a listener is attached exactly when the last run
  passed the guard, and its callback closes over the four fields of that run.
\<close>

definition listenerCurrent :: "adsEffect \<Rightarrow> bool" where
  "listenerCurrent e =
     (case lastDeps e of
        None \<Rightarrow> listener e = None
      | Some d \<Rightarrow>
          if fst d = None \<or> \<not> fst (snd d) \<or> \<not> truthy (fst (snd (snd d)))
          then listener e = None
          else
            (case listener e of
               None \<Rightarrow> False
             | Some q \<Rightarrow>
                 snd (snd (snd d)) =
                   (queryState.category q, minPrice q, maxPrice q, search q)))"

section \<open>The favorites ledger and the join\<close>

text \<open>
  The favorites snapshot callback:
  \<open>docSnap.exists() ? (docSnap.data().adIds || {}) : {}\<close>. The same expression
  reads the current record inside the toggle's transaction.
\<close>

definition onSnapshot_favorites :: "favoritesDoc option \<Rightarrow> (string \<rightharpoonup> jsval)" where
  "onSnapshot_favorites docSnap =
     (case docSnap of
        None \<Rightarrow> Map.empty
      | Some d \<Rightarrow> (case adIds d of None \<Rightarrow> Map.empty | Some m \<Rightarrow> m))"

text \<open>\<open>adsWithFavorites\<close>: every listing with \<open>isSaved: favorites[ad.id] === true\<close>.\<close>

definition adsWithFavorites :: "ad list \<Rightarrow> (string \<rightharpoonup> jsval) \<Rightarrow> annotatedAd list" where
  "adsWithFavorites ads favorites =
     map (\<lambda>a. ad.extend a
            (annotatedAd.fields (getProperty favorites (ad_id a) = Some (JBool True)))) ads"

text \<open>
  \<open>toggleFavorite\<close>. The transaction is one atomic read-modify-write of the
  identity's document: when the lookup \<open>currentFavorites[adId]\<close> is truthy the own
  key is deleted (\<open>delete\<close> leaves inherited members alone), otherwise the key is set
  to \<open>true\<close>, and the document is replaced by \<open>{adIds: currentFavorites}\<close>. The
  function returns nothing on either path.
\<close>

definition toggleFavorite ::
  "firestore option \<Rightarrow> string option \<Rightarrow> string \<Rightarrow> store \<Rightarrow> store" where
  "toggleFavorite db userId adId s =
     (case userId of
        None \<Rightarrow> s
      | Some u \<Rightarrow>
          if db = None \<or> u = [] then s
          else
            (let currentFavorites = onSnapshot_favorites (favoritesDocs s u);
                 updated =
                   (if (case getProperty currentFavorites adId of
                          None \<Rightarrow> False
                        | Some v \<Rightarrow> truthy_val v)
                    then currentFavorites(adId := None)
                    else currentFavorites(adId \<mapsto> JBool True))
             in s\<lparr> favoritesDocs := (favoritesDocs s)(u \<mapsto> \<lparr> adIds = Some updated \<rparr>) \<rparr>))"

text \<open>The spec's data-model invariant of a favorites mapping: every marker is \<open>true\<close>.\<close>

definition markersTrue :: "(string \<rightharpoonup> jsval) \<Rightarrow> bool" where
  "markersTrue m = (\<forall>k v. m k = Some v \<longrightarrow> v = JBool True)"

text \<open>No own key of the mapping is the name of an inherited member.\<close>

definition plainKeys :: "(string \<rightharpoonup> jsval) \<Rightarrow> bool" where
  "plainKeys m = list_all (\<lambda>k. m k = None) objectPrototypeKeys"

section \<open>Posting and deleting listings\<close>

text \<open>
  \<open>postAd\<close>: \<open>addDoc\<close> of \<open>{...adData, userId, timestamp: serverTimestamp(),
  location: adData.location || 'Unknown'}\<close>. The document identifier and the
  timestamp are assigned by the store; they are parameters here.
\<close>

definition postAd ::
  "firestore option \<Rightarrow> string option \<Rightarrow> jsnum adFields \<Rightarrow> string \<Rightarrow> Timestamp \<Rightarrow> store \<Rightarrow> store" where
  "postAd db userId adData newId now s =
     (case userId of
        None \<Rightarrow> s
      | Some u \<Rightarrow>
          if db = None \<or> u = [] then s
          else
            s\<lparr> adsCollection := adsCollection s @
                [\<lparr> title = title adData,
                   description = description adData,
                   price = price adData,
                   category = adFields.category adData,
                   location = (if location adData \<noteq> [] then location adData else ''Unknown''),
                   imageUrl = imageUrl adData,
                   ad_id = newId,
                   ad_userId = u,
                   timestamp = Some now \<rparr>] \<rparr>)"

text \<open>\<open>deleteAd\<close>: \<open>deleteDoc\<close> of the document with that identifier.\<close>

definition deleteAd :: "firestore option \<Rightarrow> string \<Rightarrow> store \<Rightarrow> store" where
  "deleteAd db adId s =
     (if db = None then s
      else s\<lparr> adsCollection := filter (\<lambda>a. ad_id a \<noteq> adId) (adsCollection s) \<rparr>)"

text \<open>
  The posting form and its submit handler. Without a database handle or an identity the
  handler sets the error message and returns; otherwise it posts the form's fields with
  \<open>price: parseFloat(formData.price)\<close> and the placeholder image when no image URL
  was entered, and reports success. (A rejection by the store, which the handler
  catches, is outside the model: the store's operations succeed.)
\<close>

record postAdForm =
  formData :: "string adFields"
  loading :: bool
  message :: string

definition placeholderImage :: string where
  "placeholderImage = ''https://placehold.co/600x400/002f34/ffffff?text=OIX+Ad''"

definition handleSubmit ::
  "firestore option \<Rightarrow> string option \<Rightarrow> string \<Rightarrow> Timestamp \<Rightarrow>
   postAdForm \<times> store \<Rightarrow> postAdForm \<times> store" where
  "handleSubmit db userId newId now fs =
     (if db = None \<or> \<not> truthy userId then
        ((fst fs)\<lparr> message := ''Error: You must be logged in to post an ad.'' \<rparr>, snd fs)
      else
        ((fst fs)\<lparr> loading := False, message := ''Ad posted successfully! Redirecting...'' \<rparr>,
         postAd db userId
           \<lparr> title = title (formData (fst fs)),
             description = description (formData (fst fs)),
             price = parseFloat (price (formData (fst fs))),
             category = adFields.category (formData (fst fs)),
             location = location (formData (fst fs)),
             imageUrl =
               (if imageUrl (formData (fst fs)) \<noteq> [] then imageUrl (formData (fst fs))
                else placeholderImage) \<rparr>
           newId now (snd fs)))"

text \<open>
  The form element. \<open><form onSubmit={handleSubmit}>\<close> carries no \<open>noValidate\<close>, so
  a submission first passes the constraints its controls declare, and \<open>handleSubmit\<close>
  runs only when all of them hold: title, location, category and description are
  \<open>required\<close>; the price is \<open>type="number" required min="0"\<close> with the default
  step 1, so its text must denote a finite number that is at least 0 and a whole multiple
  of 1; the image URL is \<open>type="url"\<close> and optional. What counts as a URL is the
  browser's matter and a parameter here.
\<close>

definition priceFieldValid :: "string \<Rightarrow> bool" where
  "priceFieldValid p =
     (case fieldNumber p of Num r \<Rightarrow> 0 \<le> r \<and> of_int \<lfloor>r\<rfloor> = r | _ \<Rightarrow> False)"

definition formValid :: "(string \<Rightarrow> bool) \<Rightarrow> string adFields \<Rightarrow> bool" where
  "formValid validUrl fd =
     (title fd \<noteq> [] \<and> location fd \<noteq> [] \<and> adFields.category fd \<noteq> [] \<and>
      priceFieldValid (price fd) \<and> description fd \<noteq> [] \<and>
      (imageUrl fd = [] \<or> validUrl (imageUrl fd)))"

definition PostAdForm_submit ::
  "(string \<Rightarrow> bool) \<Rightarrow> firestore option \<Rightarrow> string option \<Rightarrow> string \<Rightarrow> Timestamp \<Rightarrow>
   postAdForm \<times> store \<Rightarrow> postAdForm \<times> store" where
  "PostAdForm_submit validUrl db userId newId now fs =
     (if formValid validUrl (formData (fst fs)) then handleSubmit db userId newId now fs
      else fs)"

text \<open>
  The two commands guarded by an identity, as the rendering layer issues them. The only
  message the program can show for them is the form's \<open>message\<close>; the toggle has no
  message of its own and does not touch the form.
\<close>

datatype command = ToggleFavorite string | PostListing

fun dispatch ::
  "firestore option \<Rightarrow> string option \<Rightarrow> string \<Rightarrow> Timestamp \<Rightarrow> command \<Rightarrow>
   postAdForm \<times> store \<Rightarrow> postAdForm \<times> store" where
  "dispatch db userId newId now (ToggleFavorite adId) fs =
     (fst fs, toggleFavorite db userId adId (snd fs))"
| "dispatch db userId newId now PostListing fs = handleSubmit db userId newId now fs"

text \<open>
  The details view of a listing. It always renders the save button; it renders the
  delete button only under \<open>userId === ad.userId\<close>. A click reaches a handler only
  through a rendered button: \<open>handleToggleFavorite\<close> toggles when \<open>db && userId\<close>,
  \<open>handleDelete\<close> calls \<open>deleteAd(db, ad.id)\<close>.
\<close>

datatype control = SaveAdButton | DeleteAdButton

definition AdDetails_controls :: "string option \<Rightarrow> ad \<Rightarrow> control list" where
  "AdDetails_controls userId a =
     SaveAdButton # (if userId = Some (ad_userId a) then [DeleteAdButton] else [])"

definition handleToggleFavorite :: "firestore option \<Rightarrow> string option \<Rightarrow> ad \<Rightarrow> store \<Rightarrow> store" where
  "handleToggleFavorite db userId a s =
     (if db \<noteq> None \<and> truthy userId then toggleFavorite db userId (ad_id a) s else s)"

definition handleDelete :: "firestore option \<Rightarrow> ad \<Rightarrow> store \<Rightarrow> store" where
  "handleDelete db a s = deleteAd db (ad_id a) s"

definition AdDetails_click ::
  "firestore option \<Rightarrow> string option \<Rightarrow> ad \<Rightarrow> control \<Rightarrow> store \<Rightarrow> store" where
  "AdDetails_click db userId a c s =
     (if c \<in> set (AdDetails_controls userId a) then
        (case c of
           SaveAdButton \<Rightarrow> handleToggleFavorite db userId a s
         | DeleteAdButton \<Rightarrow> handleDelete db a s)
      else s)"

text \<open>
  Runs of the program's own writes: the three operations that change the store (a
  toggle, a submission of the posting form, a deletion from the details view's handler),
  applied in sequence from the empty store.
\<close>

datatype storeOp =
  Toggle "string option" string
| Submit "string option" postAdForm string Timestamp
| Delete string

fun applyOp :: "(string \<Rightarrow> bool) \<Rightarrow> firestore option \<Rightarrow> storeOp \<Rightarrow> store \<Rightarrow> store" where
  "applyOp validUrl db (Toggle userId adId) s = toggleFavorite db userId adId s"
| "applyOp validUrl db (Submit userId form newId now) s =
     snd (PostAdForm_submit validUrl db userId newId now (form, s))"
| "applyOp validUrl db (Delete adId) s = deleteAd db adId s"

definition emptyStore :: store where
  "emptyStore = \<lparr> adsCollection = [], favoritesDocs = Map.empty \<rparr>"

section \<open>Properties as the specification words them\<close>

text \<open>
  The four predicates of the specification on one listing: category (unless none or the
  sentinel \<open>All Categories\<close> is selected), minimum price, maximum price, and the
  case-insensitive search term in title, description or location. A price bound is the
  number that the text of its control denotes.
\<close>

definition satisfiesFilter :: "queryState \<Rightarrow> ad \<Rightarrow> bool" where
  "satisfiesFilter qs a =
     ((case queryState.category qs of
         None \<Rightarrow> True
       | Some c \<Rightarrow> c = [] \<or> c = ''All Categories'' \<or> adFields.category a = c) \<and>
      (case minPrice qs of
         None \<Rightarrow> True
       | Some m \<Rightarrow> m = [] \<or> num_ge (price a) (fieldNumber m)) \<and>
      (case maxPrice qs of
         None \<Rightarrow> True
       | Some m \<Rightarrow> m = [] \<or> num_le (price a) (fieldNumber m)) \<and>
      (case search qs of
         None \<Rightarrow> True
       | Some s \<Rightarrow>
           s = [] \<or>
           str_includes (toLowerCase (title a)) (toLowerCase s) \<or>
           str_includes (toLowerCase (description a)) (toLowerCase s) \<or>
           str_includes (toLowerCase (location a)) (toLowerCase s)))"

text \<open>
  The checks the code applies to one listing: the store's on the query, the callback's on
  search text and maximum price.
\<close>

definition passesChecks :: "queryState \<Rightarrow> ad \<Rightarrow> bool" where
  "passesChecks qs a =
     (matches (buildQuery qs) a \<and> searchMatch (search qs) a \<and> maxPriceMatch (maxPrice qs) a)"

text \<open>
  The price bounds are read as meant: \<open>parseInt\<close> gives the number the text denotes
  (a plain run of digits, for one), and the minimum is a number.
\<close>

definition boundsRead :: "queryState \<Rightarrow> bool" where
  "boundsRead qs =
     ((case minPrice qs of
         None \<Rightarrow> True
       | Some m \<Rightarrow> m = [] \<or> (parseInt m = fieldNumber m \<and> parseInt m \<noteq> NaN)) \<and>
      (case maxPrice qs of
         None \<Rightarrow> True
       | Some m \<Rightarrow> m = [] \<or> parseInt m = fieldNumber m))"

text \<open>
  \<open>a\<close> is at least as recent as \<open>b\<close>: both carry a timestamp, and \<open>a\<close>'s is not
  before \<open>b\<close>'s, seconds first and nanoseconds within the second.
\<close>

definition newerEq :: "ad \<Rightarrow> ad \<Rightarrow> bool" where
  "newerEq a b =
     (case timestamp a of
        None \<Rightarrow> False
      | Some ta \<Rightarrow>
          (case timestamp b of
             None \<Rightarrow> False
           | Some tb \<Rightarrow>
               seconds tb < seconds ta \<or>
               (seconds tb = seconds ta \<and> nanoseconds tb \<le> nanoseconds ta)))"

text \<open>The order the comparator sees: \<open>a\<close>'s whole seconds are not below \<open>b\<close>'s.\<close>

definition secondsGe :: "ad \<Rightarrow> ad \<Rightarrow> bool" where
  "secondsGe a b =
     (case timestamp a of
        None \<Rightarrow> False
      | Some ta \<Rightarrow> (case timestamp b of None \<Rightarrow> False | Some tb \<Rightarrow> seconds tb \<le> seconds ta))"

text \<open>A price that is a non-negative integer.\<close>

definition nonNegInteger :: "jsnum \<Rightarrow> bool" where
  "nonNegInteger n = (case n of Num r \<Rightarrow> 0 \<le> r \<and> of_int \<lfloor>r\<rfloor> = r | _ \<Rightarrow> False)"

section \<open>Sample data\<close>

text \<open>
  Concrete listings, filter specifications and stores on which the theorems below are
  exercised. The scenario of the specification: a listing of price 5000 in category
  \<open>Electronics\<close> under the filter \<open>{category: Electronics, minPrice: 1000,
  maxPrice: 10000}\<close>, then under \<open>maxPrice: 4000\<close>.
\<close>

definition phone :: ad where
  "phone =
     \<lparr> title = ''iPhone 12'', description = ''Lightly used'', price = Num 5000,
       category = ''Electronics'', location = ''Lahore'', imageUrl = placeholderImage,
       ad_id = ''ad1'', ad_userId = ''userB'', timestamp = Some \<lparr> seconds = 300, nanoseconds = 0 \<rparr> \<rparr>"

definition tablet :: ad where
  "tablet =
     \<lparr> title = ''Tablet'', description = ''Bigger than a PHONE'', price = Num 3000,
       category = ''Electronics'', location = ''Karachi'', imageUrl = placeholderImage,
       ad_id = ''ad2'', ad_userId = ''userA'', timestamp = Some \<lparr> seconds = 100, nanoseconds = 0 \<rparr> \<rparr>"

definition laptop :: ad where
  "laptop =
     \<lparr> title = ''Laptop'', description = ''As new'', price = Num 8000,
       category = ''Electronics'', location = ''Lahore'', imageUrl = placeholderImage,
       ad_id = ''ad3'', ad_userId = ''userA'', timestamp = Some \<lparr> seconds = 200, nanoseconds = 0 \<rparr> \<rparr>"

definition oldPhone :: ad where
  "oldPhone =
     \<lparr> title = ''Old phone'', description = ''Works'', price = Num 500,
       category = ''Electronics'', location = ''Multan'', imageUrl = placeholderImage,
       ad_id = ''ad4'', ad_userId = ''userB'', timestamp = Some \<lparr> seconds = 400, nanoseconds = 0 \<rparr> \<rparr>"

definition sofa :: ad where
  "sofa =
     \<lparr> title = ''Sofa'', description = ''Call by phone'', price = Num 5000,
       category = ''Services'', location = ''Lahore'', imageUrl = placeholderImage,
       ad_id = ''ad5'', ad_userId = ''userB'', timestamp = Some \<lparr> seconds = 300, nanoseconds = 0 \<rparr> \<rparr>"

definition goldPhone :: ad where
  "goldPhone =
     \<lparr> title = ''Gold phone'', description = ''Rare'', price = Num 20000,
       category = ''Electronics'', location = ''Lahore'', imageUrl = placeholderImage,
       ad_id = ''ad6'', ad_userId = ''userA'', timestamp = Some \<lparr> seconds = 600, nanoseconds = 0 \<rparr> \<rparr>"

definition sampleDocs :: "ad list" where
  "sampleDocs = [tablet, laptop, oldPhone, sofa, goldPhone, phone]"

definition sampleQuery :: queryState where
  "sampleQuery =
     \<lparr> search = Some ''Phone'', category = Some ''Electronics'',
       minPrice = Some ''1000'', maxPrice = Some ''10000'' \<rparr>"

definition noFilter :: queryState where
  "noFilter = \<lparr> search = None, category = None, minPrice = None, maxPrice = None \<rparr>"

definition scenarioQuery :: queryState where
  "scenarioQuery =
     \<lparr> search = Some [], category = Some ''Electronics'',
       minPrice = Some ''1000'', maxPrice = Some ''10000'' \<rparr>"

definition scenarioQuery4000 :: queryState where
  "scenarioQuery4000 =
     \<lparr> search = Some [], category = Some ''Electronics'',
       minPrice = Some ''1000'', maxPrice = Some ''4000'' \<rparr>"

definition sampleStore :: store where
  "sampleStore =
     \<lparr> adsCollection = sampleDocs,
       favoritesDocs = [''userA'' \<mapsto> \<lparr> adIds = Some [''ad1'' \<mapsto> JBool True] \<rparr>] \<rparr>"

definition sampleForm :: "string \<Rightarrow> postAdForm" where
  "sampleForm p =
     \<lparr> formData =
         \<lparr> title = ''Bicycle'', description = ''Blue'', price = p,
           category = ''Cars'', location = ''Lahore'', imageUrl = [] \<rparr>,
       loading = False, message = [] \<rparr>"

text \<open>
  A pen for 5, and a filter whose minimum price is entered in exponent notation
  (\<open>1e3\<close>, that is 1000); a pencil for 3, and a minimum entered as \<open>.5e1\<close>
  (that is 5). Both texts are values a number control with step 1 submits.
\<close>

definition pen :: ad where
  "pen =
     \<lparr> title = ''Pen'', description = ''Blue ink'', price = Num 5,
       category = ''Books'', location = ''Lahore'', imageUrl = placeholderImage,
       ad_id = ''ad8'', ad_userId = ''userA'',
       timestamp = Some \<lparr> seconds = 800, nanoseconds = 0 \<rparr> \<rparr>"

definition pencil :: ad where
  "pencil =
     \<lparr> title = ''Pencil'', description = ''Soft'', price = Num 3,
       category = ''Books'', location = ''Lahore'', imageUrl = placeholderImage,
       ad_id = ''ad9'', ad_userId = ''userA'',
       timestamp = Some \<lparr> seconds = 900, nanoseconds = 0 \<rparr> \<rparr>"

definition min1e3 :: queryState where
  "min1e3 = \<lparr> search = None, category = None, minPrice = Some ''1e3'', maxPrice = None \<rparr>"

definition minPoint5e1 :: queryState where
  "minPoint5e1 =
     \<lparr> search = None, category = None, minPrice = Some ''.5e1'', maxPrice = None \<rparr>"

text \<open>
  Two listings created within the same second, the first half a second before the
  second.
\<close>

definition firstPost :: ad where
  "firstPost =
     \<lparr> title = ''Desk'', description = ''Oak'', price = Num 9000,
       category = ''Services'', location = ''Lahore'', imageUrl = placeholderImage,
       ad_id = ''ad10'', ad_userId = ''userA'',
       timestamp = Some \<lparr> seconds = 1000, nanoseconds = 250000000 \<rparr> \<rparr>"

definition secondPost :: ad where
  "secondPost =
     \<lparr> title = ''Chair'', description = ''Oak'', price = Num 4000,
       category = ''Services'', location = ''Lahore'', imageUrl = placeholderImage,
       ad_id = ''ad11'', ad_userId = ''userB'',
       timestamp = Some \<lparr> seconds = 1000, nanoseconds = 750000000 \<rparr> \<rparr>"



section \<open>Evaluation of the sample data\<close>

lemmas num_defs = decimalToDouble_def toDouble_def roundHalfEven_def floorLog2_def pow2_def
  bitLength.simps

lemmas parse_defs = parseInt_def parseFloat_def isWhiteSpace_def isRadixDigit_def isDigit_def
  digitValue_def exponentPart_def Let_def num_defs

lemmas field_defs = fieldNumber_def validFloatText_def unsignedFloatText_def validExponent_def
  allDigits_def

lemmas string_defs = toLowerCase_def lowerChar_def upperLetters_def lowerLetters_def

lemmas engine_defs = useAds_view_def onSnapshot_ads_def snapshotDocs_def buildQuery_def
  matches_def searchMatch_def maxPriceMatch_def byNewest_def

lemmas sample_defs = sampleDocs_def phone_def tablet_def laptop_def oldPhone_def sofa_def
  goldPhone_def sampleQuery_def noFilter_def scenarioQuery_def scenarioQuery4000_def

lemma parseInt_1e3: "parseInt ''1e3'' = Num 1"
  by (simp add: parse_defs)

lemma fieldNumber_1e3: "fieldNumber ''1e3'' = Num 1000"
  by (simp add: field_defs parse_defs)

lemma parseInt_point5e1: "parseInt ''.5e1'' = NaN"
  by (simp add: parse_defs)

lemma fieldNumber_point5e1: "fieldNumber ''.5e1'' = Num 5"
  by (simp add: field_defs parse_defs)

lemma parseInt_plain: "parseInt ''1000'' = Num 1000" "parseInt ''10000'' = Num 10000"
  "parseInt ''4000'' = Num 4000"
  by (simp_all add: parse_defs)

lemma fieldNumber_plain: "fieldNumber ''1000'' = Num 1000" "fieldNumber ''10000'' = Num 10000"
  "fieldNumber ''4000'' = Num 4000" "fieldNumber ''5000'' = Num 5000"
  by (simp_all add: field_defs parse_defs)

text \<open>Rounding: the double nearest to a long run of digits.\<close>

lemma parseInt_rounds: "parseInt ''9007199254740993'' = Num 9007199254740992"
  by (simp add: parse_defs)


section \<open>The view of the query engine\<close>

lemma insert_by_set:
  "insert_by cmp x ys = Inr zs \<Longrightarrow> set zs = insert x (set ys)"
proof (induction ys arbitrary: zs)
  case Nil
  then show ?case by auto
next
  case (Cons y ys)
  from Cons.prems obtain c where c: "cmp x y = Inr c"
    by (cases "cmp x y") auto
  show ?case
  proof (cases "c \<le> 0")
    case True
    with c Cons.prems show ?thesis by auto
  next
    case False
    with c Cons.prems obtain ws where ws: "insert_by cmp x ys = Inr ws" "zs = y # ws"
      by (cases "insert_by cmp x ys") auto
    from Cons.IH [OF ws(1)] ws(2) show ?thesis by auto
  qed
qed

lemma array_sort_set:
  "array_sort cmp xs = Inr ys \<Longrightarrow> set ys = set xs"
  by (induction xs arbitrary: ys) (auto split: sum.splits dest: insert_by_set)

lemma secondsGe_trans: "secondsGe a b \<Longrightarrow> secondsGe b c \<Longrightarrow> secondsGe a c"
  by (auto simp: secondsGe_def split: option.splits)

lemma byNewest_le: "byNewest x y = Inr c \<Longrightarrow> c \<le> 0 \<Longrightarrow> secondsGe x y"
  by (auto simp: byNewest_def secondsGe_def split: option.splits)

lemma byNewest_gt: "byNewest x y = Inr c \<Longrightarrow> 0 < c \<Longrightarrow> secondsGe y x"
  by (auto simp: byNewest_def secondsGe_def split: option.splits)

lemma insert_by_sorted:
  "sorted_wrt secondsGe ys \<Longrightarrow> insert_by byNewest x ys = Inr zs \<Longrightarrow> sorted_wrt secondsGe zs"
proof (induction ys arbitrary: zs)
  case Nil
  then show ?case by auto
next
  case (Cons y ys)
  from Cons.prems(2) obtain c where c: "byNewest x y = Inr c"
    by (auto split: sum.splits)
  show ?case
  proof (cases "c \<le> 0")
    case True
    with c Cons.prems(2) have zs: "zs = x # y # ys" by simp
    have xy: "secondsGe x y" using c True by (rule byNewest_le)
    have "\<forall>z\<in>set ys. secondsGe x z"
      using Cons.prems(1) xy by (auto intro: secondsGe_trans)
    with xy Cons.prems(1) show ?thesis by (simp add: zs)
  next
    case False
    with c Cons.prems(2) obtain ws where ws: "insert_by byNewest x ys = Inr ws" "zs = y # ws"
      by (auto split: sum.splits)
    have yx: "secondsGe y x" using c False by (auto intro: byNewest_gt)
    have "sorted_wrt secondsGe ws" using Cons.IH Cons.prems(1) ws(1) by simp
    moreover have "set ws = insert x (set ys)" using ws(1) by (rule insert_by_set)
    ultimately show ?thesis using Cons.prems(1) yx by (simp add: ws(2))
  qed
qed

lemma array_sort_sorted:
  "array_sort byNewest xs = Inr ys \<Longrightarrow> sorted_wrt secondsGe ys"
  by (induction xs arbitrary: ys) (auto split: sum.splits intro: insert_by_sorted)

lemma insert_by_total:
  "timestamp x \<noteq> None \<Longrightarrow> \<forall>y\<in>set ys. timestamp y \<noteq> None \<Longrightarrow>
   \<exists>zs. insert_by byNewest x ys = Inr zs"
  by (induction ys) (auto simp: byNewest_def split: sum.splits option.splits)

lemma array_sort_total:
  "\<forall>x\<in>set xs. timestamp x \<noteq> None \<Longrightarrow> \<exists>ys. array_sort byNewest xs = Inr ys"
proof (induction xs)
  case Nil
  then show ?case by simp
next
  case (Cons x xs)
  then obtain ys where ys: "array_sort byNewest xs = Inr ys" by auto
  then have "set ys = set xs" by (rule array_sort_set)
  with Cons.prems have "\<exists>zs. insert_by byNewest x ys = Inr zs"
    by (intro insert_by_total) auto
  with ys show ?case by auto
qed

text \<open>What the code does: the view holds exactly the listings that pass its checks.\<close>

lemma useAds_view_set:
  assumes "useAds_view qs docs = Inr view"
  shows "set view = {a \<in> set docs. passesChecks qs a}"
proof -
  have "set view =
      set (filter (\<lambda>a. searchMatch (search qs) a \<and> maxPriceMatch (maxPrice qs) a)
             (snapshotDocs (buildQuery qs) docs))"
    using assms unfolding useAds_view_def onSnapshot_ads_def by (rule array_sort_set)
  then show ?thesis
    by (auto simp: snapshotDocs_def passesChecks_def)
qed

lemma useAds_view_total:
  assumes "\<forall>a\<in>set docs. timestamp a \<noteq> None"
  shows "\<exists>view. useAds_view qs docs = Inr view"
  unfolding useAds_view_def onSnapshot_ads_def snapshotDocs_def
  using assms by (intro array_sort_total) auto

lemma null_timestamp_raises:
  "timestamp a = None \<or> timestamp b = None \<Longrightarrow> array_sort byNewest [a, b] = Inl TypeError"
  by (auto simp: byNewest_def split: option.splits)

text \<open>
  Where the bounds are read as meant, the code's checks are the four predicates of the
  specification, and every listing of the view satisfies them.
\<close>

lemma store_ge_number: "m \<noteq> NaN \<Longrightarrow> store_ge p m = num_ge p m"
  by (cases m; cases p) (simp_all add: num_ge_def)

lemma passesChecks_read_bounds:
  assumes "boundsRead qs"
  shows "passesChecks qs a = satisfiesFilter qs a"
proof -
  have mn: "(case wherePriceGe (buildQuery qs) of None \<Rightarrow> True | Some m \<Rightarrow> store_ge (price a) m)
      = (case minPrice qs of None \<Rightarrow> True
         | Some m \<Rightarrow> m = [] \<or> num_ge (price a) (fieldNumber m))"
    using assms
    by (cases "minPrice qs") (auto simp: boundsRead_def buildQuery_def store_ge_number)
  have mx: "maxPriceMatch (maxPrice qs) a
      = (case maxPrice qs of None \<Rightarrow> True
         | Some m \<Rightarrow> m = [] \<or> num_le (price a) (fieldNumber m))"
    using assms
    by (cases "maxPrice qs") (auto simp: boundsRead_def maxPriceMatch_def)
  have ct: "(case whereCategory (buildQuery qs) of None \<Rightarrow> True
             | Some c \<Rightarrow> adFields.category a = c)
      = (case queryState.category qs of None \<Rightarrow> True
         | Some c \<Rightarrow> c = [] \<or> c = ''All Categories'' \<or> adFields.category a = c)"
    by (cases "queryState.category qs") (auto simp: buildQuery_def)
  show ?thesis
    unfolding passesChecks_def satisfiesFilter_def matches_def mn mx ct
    by (auto simp: searchMatch_def)
qed

lemma view_satisfies_filter_read_bounds:
  assumes "useAds_view qs docs = Inr view" and "boundsRead qs" and "a \<in> set view"
  shows "a \<in> set docs \<and> satisfiesFilter qs a"
  using useAds_view_set [OF assms(1)] assms(3) passesChecks_read_bounds [OF assms(2), of a]
  by simp

lemma sample_view:
  "boundsRead sampleQuery"
  "useAds_view sampleQuery sampleDocs = Inr [phone, tablet]"
proof -
  show "boundsRead sampleQuery"
    by (simp add: boundsRead_def sampleQuery_def parseInt_plain fieldNumber_plain)
  show "useAds_view sampleQuery sampleDocs = Inr [phone, tablet]"
    by (simp add: engine_defs sample_defs parseInt_plain string_defs)
qed

text \<open>
  C1. The claim: each listing of the produced view satisfies all four predicates, the
  price being at least the minimum price given. The code reads the bounds with
  \<open>parseInt\<close>, which stops at the first character that is not a digit. For the
  minimum \<open>1e3\<close> (that is 1000) it bounds the store query by 1, and the view holds a
  listing priced 5; for the minimum \<open>.5e1\<close> (that is 5) it bounds the query by
  \<open>NaN\<close>, which every price is at least in the store's order, and the view holds a
  listing priced 3. Neither listing satisfies the filter.
\<close>

theorem min_bound_misread:
  "useAds_view min1e3 [pen] = Inr [pen] \<and>
   \<not> satisfiesFilter min1e3 pen \<and>
   fieldNumber ''1e3'' = Num 1000 \<and> parseInt ''1e3'' = Num 1 \<and>
   useAds_view minPoint5e1 [pencil] = Inr [pencil] \<and>
   \<not> satisfiesFilter minPoint5e1 pencil \<and>
   fieldNumber ''.5e1'' = Num 5 \<and> parseInt ''.5e1'' = NaN"
proof -
  have v1: "useAds_view min1e3 [pen] = Inr [pen]"
    by (simp add: engine_defs min1e3_def pen_def parseInt_1e3)
  have n1: "\<not> satisfiesFilter min1e3 pen"
    by (simp add: satisfiesFilter_def min1e3_def pen_def fieldNumber_1e3 num_ge_def)
  have v2: "useAds_view minPoint5e1 [pencil] = Inr [pencil]"
    by (simp add: engine_defs minPoint5e1_def pencil_def parseInt_point5e1)
  have n2: "\<not> satisfiesFilter minPoint5e1 pencil"
    by (simp add: satisfiesFilter_def minPoint5e1_def pencil_def fieldNumber_point5e1 num_ge_def)
  from v1 n1 v2 n2 show ?thesis
    by (simp add: fieldNumber_1e3 parseInt_1e3 fieldNumber_point5e1 parseInt_point5e1)
qed

text \<open>
  The order of the view. The comparator sees whole seconds: a produced view is in
  descending order of seconds, and listings of the same second keep the order of the
  snapshot.
\<close>

lemma useAds_view_sorted_wrt:
  "useAds_view qs docs = Inr view \<Longrightarrow> sorted_wrt secondsGe view"
  unfolding useAds_view_def onSnapshot_ads_def by (rule array_sort_sorted)

lemma view_sorted_by_seconds:
  assumes "useAds_view qs docs = Inr view" and "Suc i < length view"
  shows "secondsGe (view ! i) (view ! Suc i)"
proof -
  have "sorted_wrt secondsGe view" using assms(1) by (rule useAds_view_sorted_wrt)
  then show ?thesis using assms(2) by (simp add: sorted_wrt_iff_nth_less)
qed

lemma newerEq_secondsGe: "newerEq a b \<Longrightarrow> secondsGe a b"
  by (auto simp: newerEq_def secondsGe_def split: option.splits)

lemma secondsGe_newerEq:
  "secondsGe a b \<Longrightarrow> map_option seconds (timestamp a) \<noteq> map_option seconds (timestamp b) \<Longrightarrow>
   newerEq a b"
  by (auto simp: newerEq_def secondsGe_def split: option.splits)

lemma sample_view_sorted:
  "useAds_view noFilter sampleDocs = Inr [goldPhone, oldPhone, sofa, phone, laptop, tablet]"
  by (simp add: engine_defs sample_defs)

text \<open>
  C4. The claim: of two adjacent listings of the view, the first has the later or the same
  creation timestamp. The comparator subtracts the seconds of the timestamps and never
  reads their nanoseconds: two listings created within one second compare equal and keep
  the order in which the snapshot delivered them, here the older one first.
\<close>

theorem same_second_older_first:
  "useAds_view noFilter [firstPost, secondPost] = Inr [firstPost, secondPost] \<and>
   \<not> newerEq firstPost secondPost \<and>
   newerEq secondPost firstPost \<and>
   secondsGe firstPost secondPost"
  by (simp add: engine_defs noFilter_def firstPost_def secondPost_def newerEq_def secondsGe_def)

text \<open>
  The live listener always filters by the current filter specification: after a render
  with a database handle, readiness and an identity, the list handed to \<open>setAds\<close> for
  a content of the collection is the view of the current specification.
\<close>

lemma listenerCurrent_mount: "listenerCurrent mount"
  by (simp add: listenerCurrent_def mount_def)

lemma listenerCurrent_render:
  assumes "listenerCurrent e"
  shows "listenerCurrent (useAds_render db isAuthReady userId qs e)"
proof (cases "lastDeps e = Some (useAds_deps db isAuthReady userId qs)")
  case True
  then have "useAds_render db isAuthReady userId qs e = e"
    by (simp add: useAds_render_def)
  with assms show ?thesis by simp
next
  case False
  then show ?thesis
    by (simp add: listenerCurrent_def useAds_render_def useAds_deps_def)
qed

lemma listener_is_current:
  assumes "listenerCurrent e" and "db \<noteq> None" and "isAuthReady" and "truthy userId"
  shows "useAds_ads (useAds_render db isAuthReady userId qs e) docs = Some (useAds_view qs docs)"
proof (cases "lastDeps e = Some (useAds_deps db isAuthReady userId qs)")
  case True
  with assms obtain q where q: "listener e = Some q"
    by (auto simp: listenerCurrent_def useAds_deps_def split: option.splits)
  with True assms have "queryState.category q = queryState.category qs"
    "minPrice q = minPrice qs" "maxPrice q = maxPrice qs" "search q = search qs"
    by (simp_all add: listenerCurrent_def useAds_deps_def)
  then have "q = qs" by simp
  with True q show ?thesis by (simp add: useAds_ads_def useAds_render_def)
next
  case False
  with assms(2,3,4) show ?thesis by (simp add: useAds_ads_def useAds_render_def)
qed


section \<open>The favorites ledger\<close>

lemma markersTrue_empty: "markersTrue Map.empty"
  by (simp add: markersTrue_def)

lemma plainKeys_empty: "plainKeys Map.empty"
  by (simp add: plainKeys_def list_all_iff)

lemma plainKeys_iff: "plainKeys m \<longleftrightarrow> (\<forall>k\<in>set objectPrototypeKeys. m k = None)"
  by (simp add: plainKeys_def list_all_iff)

lemma absent_record_markersTrue:
  "favoritesDocs s u = None \<Longrightarrow> markersTrue (onSnapshot_favorites (favoritesDocs s u))"
  by (simp add: onSnapshot_favorites_def markersTrue_def)

text \<open>
  The lookup \<open>obj[k]\<close> is truthy on a record of the data model exactly when \<open>k\<close> is
  an own key or the name of an inherited member; it is \<open>true\<close> exactly for own keys.
\<close>

lemma markersTrue_lookup:
  assumes "markersTrue m"
  shows "(case getProperty m k of None \<Rightarrow> False | Some v \<Rightarrow> truthy_val v)
           = (k \<in> dom m \<or> k \<in> set objectPrototypeKeys)"
proof (cases "m k")
  case None
  then show ?thesis by (simp add: getProperty_def dom_def)
next
  case (Some v)
  with assms have "v = JBool True" by (simp add: markersTrue_def)
  with Some show ?thesis by (simp add: getProperty_def dom_def)
qed

lemma getProperty_true: "(getProperty m k = Some (JBool True)) = (m k = Some (JBool True))"
  by (cases "m k") (simp_all add: getProperty_def)

text \<open>What the transaction writes, read through the snapshot callback.\<close>

lemma toggleFavorite_written:
  assumes "db \<noteq> None" and "u \<noteq> []"
  shows "favoritesDocs (toggleFavorite db (Some u) adId s) u =
           Some \<lparr> adIds = Some
             (if (case getProperty (onSnapshot_favorites (favoritesDocs s u)) adId of
                    None \<Rightarrow> False | Some v \<Rightarrow> truthy_val v)
              then (onSnapshot_favorites (favoritesDocs s u))(adId := None)
              else (onSnapshot_favorites (favoritesDocs s u))(adId \<mapsto> JBool True)) \<rparr>"
  using assms by (auto simp: toggleFavorite_def Let_def)

lemma toggleFavorite_read:
  assumes "db \<noteq> None" and "u \<noteq> []" and "markersTrue (onSnapshot_favorites (favoritesDocs s u))"
  shows "onSnapshot_favorites (favoritesDocs (toggleFavorite db (Some u) adId s) u) =
           (if adId \<in> dom (onSnapshot_favorites (favoritesDocs s u)) \<or>
               adId \<in> set objectPrototypeKeys
            then (onSnapshot_favorites (favoritesDocs s u))(adId := None)
            else (onSnapshot_favorites (favoritesDocs s u))(adId \<mapsto> JBool True))"
proof -
  let ?F = "onSnapshot_favorites (favoritesDocs s u)"
  have "(case getProperty ?F adId of None \<Rightarrow> False | Some v \<Rightarrow> truthy_val v)
          = (adId \<in> dom ?F \<or> adId \<in> set objectPrototypeKeys)"
    using assms(3) by (rule markersTrue_lookup)
  then show ?thesis
    using toggleFavorite_written [OF assms(1,2), of adId s]
    by (simp add: onSnapshot_favorites_def)
qed

lemma toggleFavorite_frame:
  "adsCollection (toggleFavorite db userId adId s) = adsCollection s"
  "userId \<noteq> Some w \<Longrightarrow> favoritesDocs (toggleFavorite db userId adId s) w = favoritesDocs s w"
  by (auto simp: toggleFavorite_def Let_def split: option.splits)

lemma toggleFavorite_markersTrue:
  assumes "markersTrue (onSnapshot_favorites (favoritesDocs s u))"
  shows "markersTrue (onSnapshot_favorites (favoritesDocs (toggleFavorite db userId adId s) u))"
proof (cases "userId = Some u \<and> db \<noteq> None \<and> u \<noteq> []")
  case True
  then have "onSnapshot_favorites (favoritesDocs (toggleFavorite db userId adId s) u) =
           (if adId \<in> dom (onSnapshot_favorites (favoritesDocs s u)) \<or>
               adId \<in> set objectPrototypeKeys
            then (onSnapshot_favorites (favoritesDocs s u))(adId := None)
            else (onSnapshot_favorites (favoritesDocs s u))(adId \<mapsto> JBool True))"
    using toggleFavorite_read [of db u s adId] assms by simp
  then show ?thesis
    using assms by (auto simp: markersTrue_def split: if_splits)
next
  case False
  then have "favoritesDocs (toggleFavorite db userId adId s) u = favoritesDocs s u"
    by (auto simp: toggleFavorite_def Let_def split: option.splits)
  with assms show ?thesis by simp
qed

text \<open>The toggle never writes a key that names an inherited member.\<close>

lemma toggleFavorite_plainKeys:
  assumes "plainKeys (onSnapshot_favorites (favoritesDocs s u))"
  shows "plainKeys (onSnapshot_favorites (favoritesDocs (toggleFavorite db userId adId s) u))"
proof (cases "userId = Some u \<and> db \<noteq> None \<and> u \<noteq> []")
  case True
  let ?F = "onSnapshot_favorites (favoritesDocs s u)"
  let ?F1 = "onSnapshot_favorites (favoritesDocs (toggleFavorite db userId adId s) u)"
  have w: "?F1 =
      (if (case getProperty ?F adId of None \<Rightarrow> False | Some v \<Rightarrow> truthy_val v)
       then ?F(adId := None) else ?F(adId \<mapsto> JBool True))"
    using True toggleFavorite_written [of db u adId s] by (simp add: onSnapshot_favorites_def)
  show ?thesis
  proof (cases "adId \<in> set objectPrototypeKeys")
    case False
    with assms show ?thesis by (auto simp: w plainKeys_iff)
  next
    case inh: True
    with assms have "?F adId = None" by (simp add: plainKeys_iff)
    with inh have "getProperty ?F adId = Some JObject" by (simp add: getProperty_def)
    with assms show ?thesis by (simp add: w plainKeys_iff)
  qed
next
  case False
  then have "favoritesDocs (toggleFavorite db userId adId s) u = favoritesDocs s u"
    by (auto simp: toggleFavorite_def Let_def split: option.splits)
  with assms show ?thesis by simp
qed

text \<open>
  Both invariants hold in every state that the program's own writes reach from the empty
  store: the records that the theorems on the favorites ledger and the join speak of are
  the records the program produces.
\<close>

lemma applyOp_favoritesDocs:
  "favoritesDocs (applyOp validUrl db (Submit userId form newId now) s) = favoritesDocs s"
  "favoritesDocs (applyOp validUrl db (Delete adId) s) = favoritesDocs s"
  by (simp_all add: PostAdForm_submit_def handleSubmit_def postAd_def deleteAd_def
      split: option.splits)

lemma applyOp_markersTrue:
  assumes "markersTrue (onSnapshot_favorites (favoritesDocs s u))"
  shows "markersTrue (onSnapshot_favorites (favoritesDocs (applyOp validUrl db x s) u))"
proof (cases x)
  case (Toggle userId adId)
  with assms show ?thesis by (simp add: toggleFavorite_markersTrue)
next
  case (Submit userId form newId now)
  with assms show ?thesis by (simp only: applyOp_favoritesDocs)
next
  case (Delete adId)
  with assms show ?thesis by (simp only: applyOp_favoritesDocs)
qed

lemma applyOp_plainKeys:
  assumes "plainKeys (onSnapshot_favorites (favoritesDocs s u))"
  shows "plainKeys (onSnapshot_favorites (favoritesDocs (applyOp validUrl db x s) u))"
proof (cases x)
  case (Toggle userId adId)
  with assms show ?thesis by (simp add: toggleFavorite_plainKeys)
next
  case (Submit userId form newId now)
  with assms show ?thesis by (simp only: applyOp_favoritesDocs)
next
  case (Delete adId)
  with assms show ?thesis by (simp only: applyOp_favoritesDocs)
qed

lemma run_markersTrue:
  "markersTrue (onSnapshot_favorites (favoritesDocs s u)) \<Longrightarrow>
   markersTrue (onSnapshot_favorites (favoritesDocs (fold (applyOp validUrl db) ops s) u))"
  by (induction ops arbitrary: s) (simp_all add: applyOp_markersTrue)

lemma run_plainKeys:
  "plainKeys (onSnapshot_favorites (favoritesDocs s u)) \<Longrightarrow>
   plainKeys (onSnapshot_favorites (favoritesDocs (fold (applyOp validUrl db) ops s) u))"
  by (induction ops arbitrary: s) (simp_all add: applyOp_plainKeys)

lemma reachable_markersTrue:
  "markersTrue
     (onSnapshot_favorites (favoritesDocs (fold (applyOp validUrl db) ops emptyStore) u))"
  by (rule run_markersTrue) (simp add: emptyStore_def onSnapshot_favorites_def markersTrue_def)

lemma reachable_plainKeys:
  "plainKeys
     (onSnapshot_favorites (favoritesDocs (fold (applyOp validUrl db) ops emptyStore) u))"
  by (rule run_plainKeys) (simp add: emptyStore_def onSnapshot_favorites_def plainKeys_empty)

text \<open>
  For an identifier that is not the name of an inherited member, the toggle flips the
  membership: it adds the identifier, marked \<open>true\<close>, if absent, removes it if
  present, leaves every other identifier as it was, and writes the full updated mapping
  as the record.
\<close>

lemma toggle_flips_plain_identifier:
  assumes "db \<noteq> None" and "u \<noteq> []"
    and "markersTrue (onSnapshot_favorites (favoritesDocs s u))"
    and "adId \<notin> set objectPrototypeKeys"
  shows
    "(adId \<in> dom (onSnapshot_favorites (favoritesDocs (toggleFavorite db (Some u) adId s) u)))
       = (adId \<notin> dom (onSnapshot_favorites (favoritesDocs s u))) \<and>
     (\<forall>k. k \<noteq> adId \<longrightarrow>
        onSnapshot_favorites (favoritesDocs (toggleFavorite db (Some u) adId s) u) k
          = onSnapshot_favorites (favoritesDocs s u) k) \<and>
     (adId \<notin> dom (onSnapshot_favorites (favoritesDocs s u)) \<longrightarrow>
        onSnapshot_favorites (favoritesDocs (toggleFavorite db (Some u) adId s) u) adId
          = Some (JBool True)) \<and>
     favoritesDocs (toggleFavorite db (Some u) adId s) u =
       Some \<lparr> adIds = Some
         (onSnapshot_favorites (favoritesDocs (toggleFavorite db (Some u) adId s) u)) \<rparr> \<and>
     (favoritesDocs s u = None \<longrightarrow> onSnapshot_favorites (favoritesDocs s u) = Map.empty)"
proof -
  let ?F = "onSnapshot_favorites (favoritesDocs s u)"
  let ?F' = "onSnapshot_favorites (favoritesDocs (toggleFavorite db (Some u) adId s) u)"
  have r: "?F' = (if adId \<in> dom ?F then ?F(adId := None) else ?F(adId \<mapsto> JBool True))"
    using toggleFavorite_read [OF assms(1,2,3), of adId] assms(4) by simp
  have w: "favoritesDocs (toggleFavorite db (Some u) adId s) u = Some \<lparr> adIds = Some ?F' \<rparr>"
    using toggleFavorite_written [OF assms(1,2), of adId s]
    by (simp add: onSnapshot_favorites_def)
  have 1: "(adId \<in> dom ?F') = (adId \<notin> dom ?F)" by (simp add: r)
  have 2: "\<forall>k. k \<noteq> adId \<longrightarrow> ?F' k = ?F k" by (simp add: r)
  have 3: "adId \<notin> dom ?F \<longrightarrow> ?F' adId = Some (JBool True)" by (simp add: r)
  have 5: "favoritesDocs s u = None \<longrightarrow> ?F = Map.empty"
    by (simp add: onSnapshot_favorites_def)
  from 1 2 3 w 5 show ?thesis by blast
qed

text \<open>
  C2. The claim: for every listing identifier the toggle adds the identifier if it is
  absent. The code tests \<open>currentFavorites[adId]\<close> on a plain object, and that lookup
  also finds the members every object inherits: for the identifiers \<open>constructor\<close> and
  \<open>propertyIsEnumerable\<close>, absent from the record, it takes the unsave branch, deletes
  nothing and writes the mapping without the identifier. The identifier is still absent
  after the toggle, and after any number of toggles.
\<close>

theorem inherited_name_never_added:
  "favoritesDocs sampleStore ''userB'' = None \<and>
   ''constructor'' \<notin> dom (onSnapshot_favorites
      (favoritesDocs
         (toggleFavorite (Some Firestore) (Some ''userB'') ''constructor'' sampleStore)
         ''userB'')) \<and>
   favoritesDocs
     (toggleFavorite (Some Firestore) (Some ''userB'') ''constructor'' sampleStore) ''userB''
     = Some \<lparr> adIds = Some Map.empty \<rparr> \<and>
   ''propertyIsEnumerable'' \<notin> dom (onSnapshot_favorites
      (favoritesDocs
         (toggleFavorite (Some Firestore) (Some ''userB'') ''propertyIsEnumerable'' sampleStore)
         ''userB''))"
  by (simp add: toggleFavorite_def sampleStore_def onSnapshot_favorites_def Let_def
      getProperty_def objectPrototypeKeys_def)





text \<open>
  C10. Starting from a record whose markers are all \<open>true\<close> (an absent record reads as
  the empty mapping, which is such a record), whatever the toggle writes back is again a
  mapping whose markers are all \<open>true\<close>; on it the join's strict check
  \<open>favorites[id] === true\<close> holds exactly for the keys of the mapping (a member the
  mapping inherits is not \<open>true\<close>).
\<close>

theorem toggle_keeps_markers_true:
  assumes "markersTrue (onSnapshot_favorites (favoritesDocs s u))"
  shows
    "markersTrue (onSnapshot_favorites (favoritesDocs (toggleFavorite db userId adId s) u)) \<and>
     (\<forall>k. (onSnapshot_favorites (favoritesDocs (toggleFavorite db userId adId s) u) k
              = Some (JBool True))
          = (k \<in> dom (onSnapshot_favorites (favoritesDocs (toggleFavorite db userId adId s) u)))) \<and>
     (\<forall>k. (getProperty
              (onSnapshot_favorites (favoritesDocs (toggleFavorite db userId adId s) u)) k
              = Some (JBool True))
          = (k \<in> dom (onSnapshot_favorites (favoritesDocs (toggleFavorite db userId adId s) u))))"
proof -
  let ?F1 = "onSnapshot_favorites (favoritesDocs (toggleFavorite db userId adId s) u)"
  have m1: "markersTrue ?F1"
    using assms by (rule toggleFavorite_markersTrue)
  then have own: "\<forall>k. (?F1 k = Some (JBool True)) = (k \<in> dom ?F1)"
    by (auto simp: markersTrue_def)
  have "\<forall>k. (getProperty ?F1 k = Some (JBool True)) = (k \<in> dom ?F1)"
    using own by (simp add: getProperty_true)
  with m1 own show ?thesis by blast
qed

theorem toggle_keeps_markers_true_witness:
  "markersTrue (onSnapshot_favorites (favoritesDocs sampleStore ''userB'')) \<and>
   markersTrue
     (onSnapshot_favorites
        (favoritesDocs
           (toggleFavorite (Some Firestore) (Some ''userB'') ''ad3'' sampleStore) ''userB'')) \<and>
   onSnapshot_favorites
     (favoritesDocs
        (toggleFavorite (Some Firestore) (Some ''userB'') ''ad3'' sampleStore) ''userB'') ''ad3''
     = Some (JBool True)"
proof -
  have FB: "favoritesDocs sampleStore ''userB'' = None"
    by (simp add: sampleStore_def)
  then have mB: "markersTrue (onSnapshot_favorites (favoritesDocs sampleStore ''userB''))"
    by (rule absent_record_markersTrue)
  have w: "onSnapshot_favorites
     (favoritesDocs
        (toggleFavorite (Some Firestore) (Some ''userB'') ''ad3'' sampleStore) ''userB'') ''ad3''
     = Some (JBool True)"
    by (simp add: toggleFavorite_def sampleStore_def onSnapshot_favorites_def Let_def
        getProperty_def objectPrototypeKeys_def)
  from toggle_keeps_markers_true [OF mB, of "Some Firestore" "Some ''userB''" "''ad3''"] mB w
  show ?thesis by simp
qed

section \<open>The join\<close>

lemma adsWithFavorites_length: "length (adsWithFavorites ads favorites) = length ads"
  by (simp add: adsWithFavorites_def)

text \<open>
  C3. For every listing of the latest listing sequence and the latest favorites emission
  of the identity (a mapping of the data model: every marker is \<open>true\<close>), the derived
  \<open>isSaved\<close> flag of the listing equals the membership of the listing's identifier
  in the emission; the annotated listing is otherwise the listing itself, and the join
  is a function of the two emissions alone.
\<close>

theorem isSaved_is_membership:
  assumes "markersTrue favorites" and "i < length ads"
  shows
    "isSaved (adsWithFavorites ads favorites ! i) = (ad_id (ads ! i) \<in> dom favorites) \<and>
     ad.truncate (adsWithFavorites ads favorites ! i) = ads ! i"
proof -
  have "(favorites (ad_id (ads ! i)) = Some (JBool True)) = (ad_id (ads ! i) \<in> dom favorites)"
    using assms(1) by (auto simp: markersTrue_def)
  then show ?thesis
    using assms(2)
    by (simp add: adsWithFavorites_def getProperty_true
        ad.extend_def ad.truncate_def annotatedAd.defs ad.defs)
qed

theorem isSaved_is_membership_witness:
  "markersTrue (onSnapshot_favorites (favoritesDocs sampleStore ''userA'')) \<and>
   isSaved (adsWithFavorites [phone, tablet]
              (onSnapshot_favorites (favoritesDocs sampleStore ''userA'')) ! 0) \<and>
   \<not> isSaved (adsWithFavorites [phone, tablet]
              (onSnapshot_favorites (favoritesDocs sampleStore ''userA'')) ! 1) \<and>
   ad_id phone \<in> dom (onSnapshot_favorites (favoritesDocs sampleStore ''userA'')) \<and>
   ad_id tablet \<notin> dom (onSnapshot_favorites (favoritesDocs sampleStore ''userA''))"
proof -
  have FA: "onSnapshot_favorites (favoritesDocs sampleStore ''userA'') = [''ad1'' \<mapsto> JBool True]"
    by (simp add: sampleStore_def onSnapshot_favorites_def)
  have mA: "markersTrue (onSnapshot_favorites (favoritesDocs sampleStore ''userA''))"
    by (simp add: FA markersTrue_def)
  have ids: "ad_id phone = ''ad1''" "ad_id tablet = ''ad2''"
    by (simp_all add: phone_def tablet_def)
  have "isSaved (adsWithFavorites [phone, tablet]
              (onSnapshot_favorites (favoritesDocs sampleStore ''userA'')) ! 0)
        = (ad_id ([phone, tablet] ! 0) \<in> dom (onSnapshot_favorites (favoritesDocs sampleStore ''userA'')))"
    using isSaved_is_membership [OF mA, of 0 "[phone, tablet]"] by simp
  moreover have "isSaved (adsWithFavorites [phone, tablet]
              (onSnapshot_favorites (favoritesDocs sampleStore ''userA'')) ! 1)
        = (ad_id ([phone, tablet] ! 1) \<in> dom (onSnapshot_favorites (favoritesDocs sampleStore ''userA'')))"
    using isSaved_is_membership [OF mA, of 1 "[phone, tablet]"] by simp
  ultimately show ?thesis using mA by (simp add: FA ids)
qed


section \<open>Deleting a listing\<close>

text \<open>
  \<open>deleteAd\<close> itself takes no identity and checks none: whoever calls it with a
  database handle removes the listing. The owner check is the condition under which
  the details view renders the delete button, the only caller.
\<close>

lemma deleteAd_unguarded:
  "db \<noteq> None \<Longrightarrow> \<forall>b\<in>set (adsCollection (deleteAd db adId s)). ad_id b \<noteq> adId"
  by (auto simp: deleteAd_def)

lemma handleToggleFavorite_listings:
  "adsCollection (handleToggleFavorite db userId a s) = adsCollection s"
  by (simp add: handleToggleFavorite_def toggleFavorite_frame)

text \<open>
  C6. A listing is deleted only by its owner. For an identity other than the owner the
  details view offers no delete control, and whatever control of the view is clicked the
  listings of the store stay as they are; for the owner (with a database handle) the
  delete control is offered and a click on it removes the listing. Hence a click that
  changes the listings was the owner's.
\<close>

theorem delete_only_by_owner:
  "(userId \<noteq> Some (ad_userId a) \<longrightarrow>
      DeleteAdButton \<notin> set (AdDetails_controls userId a) \<and>
      adsCollection (AdDetails_click db userId a c s) = adsCollection s) \<and>
   (userId = Some (ad_userId a) \<and> db \<noteq> None \<longrightarrow>
      DeleteAdButton \<in> set (AdDetails_controls userId a) \<and>
      (\<forall>b\<in>set (adsCollection (AdDetails_click db userId a DeleteAdButton s)).
         ad_id b \<noteq> ad_id a)) \<and>
   (adsCollection (AdDetails_click db userId a c s) \<noteq> adsCollection s \<longrightarrow>
      userId = Some (ad_userId a))"
proof -
  have 1: "userId \<noteq> Some (ad_userId a) \<longrightarrow>
      DeleteAdButton \<notin> set (AdDetails_controls userId a) \<and>
      adsCollection (AdDetails_click db userId a c s) = adsCollection s"
    by (cases c)
      (simp_all add: AdDetails_click_def AdDetails_controls_def handleToggleFavorite_listings)
  have 2: "userId = Some (ad_userId a) \<and> db \<noteq> None \<longrightarrow>
      DeleteAdButton \<in> set (AdDetails_controls userId a) \<and>
      (\<forall>b\<in>set (adsCollection (AdDetails_click db userId a DeleteAdButton s)).
         ad_id b \<noteq> ad_id a)"
    by (auto simp: AdDetails_click_def AdDetails_controls_def handleDelete_def deleteAd_def)
  from 1 2 show ?thesis by blast
qed

theorem delete_only_by_owner_witness:
  "Some ''userA'' \<noteq> Some (ad_userId phone) \<and>
   DeleteAdButton \<notin> set (AdDetails_controls (Some ''userA'') phone) \<and>
   adsCollection (AdDetails_click (Some Firestore) (Some ''userA'') phone DeleteAdButton sampleStore)
     = adsCollection sampleStore \<and>
   phone \<in> set (adsCollection sampleStore) \<and>
   Some ''userB'' = Some (ad_userId phone) \<and>
   phone \<notin> set (adsCollection
     (AdDetails_click (Some Firestore) (Some ''userB'') phone DeleteAdButton sampleStore))"
proof -
  have o: "ad_userId phone = ''userB''" by (simp add: phone_def)
  have na: "Some ''userA'' \<noteq> Some (ad_userId phone)" by (simp add: o)
  have ob: "Some ''userB'' = Some (ad_userId phone) \<and> Some Firestore \<noteq> None" by (simp add: o)
  have inS: "phone \<in> set (adsCollection sampleStore)"
    by (simp add: sampleStore_def sampleDocs_def)
  from delete_only_by_owner [of "Some ''userA''" phone "Some Firestore" DeleteAdButton sampleStore] na
  have A: "DeleteAdButton \<notin> set (AdDetails_controls (Some ''userA'') phone) \<and>
      adsCollection (AdDetails_click (Some Firestore) (Some ''userA'') phone DeleteAdButton sampleStore)
        = adsCollection sampleStore"
    by blast
  from delete_only_by_owner [of "Some ''userB''" phone "Some Firestore" DeleteAdButton sampleStore] ob
  have "\<forall>b\<in>set (adsCollection
      (AdDetails_click (Some Firestore) (Some ''userB'') phone DeleteAdButton sampleStore)).
         ad_id b \<noteq> ad_id phone"
    by blast
  then have B: "phone \<notin> set (adsCollection
     (AdDetails_click (Some Firestore) (Some ''userB'') phone DeleteAdButton sampleStore))"
    by blast
  from A B na ob inS show ?thesis by blast
qed

section \<open>Posting a listing\<close>

lemma postAd_listings:
  assumes "db \<noteq> None" and "u \<noteq> []"
  shows "adsCollection (postAd db (Some u) adData newId now s) =
           adsCollection s @
             [\<lparr> title = title adData,
                description = description adData,
                price = price adData,
                category = adFields.category adData,
                location = (if location adData \<noteq> [] then location adData else ''Unknown''),
                imageUrl = imageUrl adData,
                ad_id = newId,
                ad_userId = u,
                timestamp = Some now \<rparr>]"
  using assms by (auto simp: postAd_def)

text \<open>
  The submit handler by itself: with a database handle and an identity it adds exactly one
  listing, whose price is \<open>parseFloat\<close> of the form's price text, stored as parsed; the
  handler and \<open>postAd\<close> neither round it nor check its sign.
\<close>

lemma handleSubmit_stores_parsed_price:
  assumes "db \<noteq> None" and "u \<noteq> []"
  shows
    "map price (adsCollection (snd (handleSubmit db (Some u) newId now (f, s)))) =
       map price (adsCollection s) @ [parseFloat (price (formData f))] \<and>
     map ad_userId (adsCollection (snd (handleSubmit db (Some u) newId now (f, s)))) =
       map ad_userId (adsCollection s) @ [u] \<and>
     take (length (adsCollection s))
       (adsCollection (snd (handleSubmit db (Some u) newId now (f, s)))) = adsCollection s"
  using assms by (simp add: handleSubmit_def truthy_def postAd_listings)


text \<open>
  The price control lets a text through only if it denotes a non-negative whole number,
  and for such a text \<open>parseFloat\<close> gives that number.
\<close>

lemma priceFieldValid_iff: "priceFieldValid p = nonNegInteger (fieldNumber p)"
  by (simp add: priceFieldValid_def nonNegInteger_def)






lemma fieldNumber_fraction_negative:
  "fieldNumber ''12.5'' = Num (25 / 2)" "fieldNumber ''-5'' = Num (- 5)"
  by (simp_all add: field_defs parse_defs)

text \<open>The control blocks a price with a fraction and a negative price.\<close>

lemma price_field_blocks:
  "\<not> priceFieldValid ''12.5''" "\<not> priceFieldValid ''-5''" "\<not> priceFieldValid []"
  "PostAdForm_submit validUrl db userId newId now (sampleForm ''12.5'', s)
     = (sampleForm ''12.5'', s)"
  "PostAdForm_submit validUrl db userId newId now (sampleForm ''-5'', s)
     = (sampleForm ''-5'', s)"
proof -
  have "\<not> nonNegInteger (Num (25 / 2))" by code_simp
  then show a: "\<not> priceFieldValid ''12.5''"
    by (simp add: priceFieldValid_iff fieldNumber_fraction_negative)
  show b: "\<not> priceFieldValid ''-5''"
    by (simp add: priceFieldValid_iff fieldNumber_fraction_negative nonNegInteger_def)
  show "\<not> priceFieldValid []"
    by (simp add: priceFieldValid_def field_defs)
  show "PostAdForm_submit validUrl db userId newId now (sampleForm ''12.5'', s)
     = (sampleForm ''12.5'', s)"
    using a by (simp add: PostAdForm_submit_def formValid_def sampleForm_def)
  show "PostAdForm_submit validUrl db userId newId now (sampleForm ''-5'', s)
     = (sampleForm ''-5'', s)"
    using b by (simp add: PostAdForm_submit_def formValid_def sampleForm_def)
qed



section \<open>The store query and the subscription\<close>

lemma buildQuery_frame:
  assumes "queryState.category qs' = queryState.category qs" and "minPrice qs' = minPrice qs"
  shows "buildQuery qs' = buildQuery qs"
  using assms by (simp add: buildQuery_def)

text \<open>
  C8, as the code has it. The query sent to the store is a function of the category and
  minimum-price fields only: a change of the maximum price or of the search term alone
  leaves the query the same. The subscription effect, however, depends on all four
  fields: on such a change it runs again and sends that same query to the store once
  more, with a new listener that filters by the new maximum price and search term.
\<close>

theorem coarse_query_frame:
  assumes "queryState.category qs' = queryState.category qs" and "minPrice qs' = minPrice qs"
  shows
    "buildQuery qs' = buildQuery qs \<and>
     (db \<noteq> None \<and> isAuthReady \<and> truthy userId \<and>
      lastDeps e = Some (useAds_deps db isAuthReady userId qs) \<and>
      (maxPrice qs' \<noteq> maxPrice qs \<or> search qs' \<noteq> search qs) \<longrightarrow>
        storeQueries (useAds_render db isAuthReady userId qs' e)
          = storeQueries e @ [buildQuery qs] \<and>
        listener (useAds_render db isAuthReady userId qs' e) = Some qs')"
proof -
  have q: "buildQuery qs' = buildQuery qs" using assms by (rule buildQuery_frame)
  have "db \<noteq> None \<and> isAuthReady \<and> truthy userId \<and>
      lastDeps e = Some (useAds_deps db isAuthReady userId qs) \<and>
      (maxPrice qs' \<noteq> maxPrice qs \<or> search qs' \<noteq> search qs) \<longrightarrow>
        storeQueries (useAds_render db isAuthReady userId qs' e)
          = storeQueries e @ [buildQuery qs] \<and>
        listener (useAds_render db isAuthReady userId qs' e) = Some qs'"
    by (auto simp: useAds_render_def useAds_deps_def q)
  with q show ?thesis by simp
qed

theorem coarse_query_frame_witness:
  "buildQuery scenarioQuery4000 = buildQuery scenarioQuery \<and>
   storeQueries
     (useAds_render (Some Firestore) True (Some ''userA'') scenarioQuery4000
        (useAds_render (Some Firestore) True (Some ''userA'') scenarioQuery mount))
     = [buildQuery scenarioQuery, buildQuery scenarioQuery] \<and>
   useAds_view scenarioQuery [phone] = Inr [phone] \<and>
   useAds_view scenarioQuery4000 [phone] = Inr []"
proof -
  let ?e1 = "useAds_render (Some Firestore) True (Some ''userA'') scenarioQuery mount"
  have c: "queryState.category scenarioQuery4000 = queryState.category scenarioQuery"
    and m: "minPrice scenarioQuery4000 = minPrice scenarioQuery"
    by (simp_all add: scenarioQuery_def scenarioQuery4000_def)
  have e1: "lastDeps ?e1 = Some (useAds_deps (Some Firestore) True (Some ''userA'') scenarioQuery)"
    "storeQueries ?e1 = [buildQuery scenarioQuery]"
    by (simp_all add: useAds_render_def mount_def truthy_def)
  have g: "Some Firestore \<noteq> None \<and> True \<and> truthy (Some ''userA'') \<and>
      lastDeps ?e1 = Some (useAds_deps (Some Firestore) True (Some ''userA'') scenarioQuery) \<and>
      (maxPrice scenarioQuery4000 \<noteq> maxPrice scenarioQuery \<or>
       search scenarioQuery4000 \<noteq> search scenarioQuery)"
    using e1(1) by (simp add: truthy_def scenarioQuery_def scenarioQuery4000_def)
  have v1: "useAds_view scenarioQuery [phone] = Inr [phone]"
    by (simp add: engine_defs sample_defs parseInt_plain)
  have v2: "useAds_view scenarioQuery4000 [phone] = Inr []"
    by (simp add: engine_defs sample_defs parseInt_plain)
  from coarse_query_frame [OF c m, of "Some Firestore" True "Some ''userA''" ?e1] g
  have "buildQuery scenarioQuery4000 = buildQuery scenarioQuery \<and>
    storeQueries (useAds_render (Some Firestore) True (Some ''userA'') scenarioQuery4000 ?e1)
      = storeQueries ?e1 @ [buildQuery scenarioQuery]"
    by blast
  with e1(2) v1 v2 show ?thesis by simp
qed

text \<open>
  C8 as the specification states it fails: in the specification's scenario, after the
  maximum price alone changes from 10000 to 4000, the store has been sent two queries,
  not one.
\<close>

theorem new_store_query_counterexample:
  "queryState.category scenarioQuery4000 = queryState.category scenarioQuery \<and>
   minPrice scenarioQuery4000 = minPrice scenarioQuery \<and>
   search scenarioQuery4000 = search scenarioQuery \<and>
   length (storeQueries
     (useAds_render (Some Firestore) True (Some ''userA'') scenarioQuery mount)) = 1 \<and>
   length (storeQueries
     (useAds_render (Some Firestore) True (Some ''userA'') scenarioQuery4000
        (useAds_render (Some Firestore) True (Some ''userA'') scenarioQuery mount))) = 2"
  by (simp add: useAds_render_def useAds_deps_def mount_def truthy_def
      scenarioQuery_def scenarioQuery4000_def)

section \<open>Operations without an identity\<close>

text \<open>
  C9, as the code has it. Without a database handle or an identity, both commands leave
  the store untouched. The submit handler reports it with the message
  \<open>Error: You must be logged in to post an ad.\<close>; the toggle returns silently and
  leaves the form, with its message, as it was.
\<close>

theorem no_identity_is_noop:
  assumes "db = None \<or> \<not> truthy userId"
  shows
    "snd (dispatch db userId newId now c fs) = snd fs \<and>
     (c = PostListing \<longrightarrow>
        message (fst (dispatch db userId newId now c fs))
          = ''Error: You must be logged in to post an ad.'') \<and>
     (\<forall>adId. c = ToggleFavorite adId \<longrightarrow> fst (dispatch db userId newId now c fs) = fst fs)"
proof (cases c)
  case (ToggleFavorite adId)
  have "toggleFavorite db userId adId (snd fs) = snd fs"
    using assms by (auto simp: toggleFavorite_def truthy_def split: option.splits)
  with ToggleFavorite show ?thesis by simp
next
  case PostListing
  with assms show ?thesis by (auto simp: handleSubmit_def)
qed

theorem no_identity_is_noop_witness:
  "snd (dispatch (Some Firestore) None ''ad7'' \<lparr> seconds = 700, nanoseconds = 0 \<rparr> PostListing
          (sampleForm ''5000'', sampleStore)) = sampleStore \<and>
   message (fst (dispatch (Some Firestore) None ''ad7'' \<lparr> seconds = 700, nanoseconds = 0 \<rparr>
          PostListing (sampleForm ''5000'', sampleStore)))
     = ''Error: You must be logged in to post an ad.'' \<and>
   snd (dispatch (Some Firestore) None ''ad7'' \<lparr> seconds = 700, nanoseconds = 0 \<rparr>
          (ToggleFavorite ''ad1'') (sampleForm ''5000'', sampleStore)) = sampleStore"
proof -
  have a: "Some Firestore = None \<or> \<not> truthy None" by (simp add: truthy_def)
  from no_identity_is_noop [OF a, of "''ad7''" "\<lparr> seconds = 700, nanoseconds = 0 \<rparr>" PostListing
      "(sampleForm ''5000'', sampleStore)"]
    no_identity_is_noop [OF a, of "''ad7''" "\<lparr> seconds = 700, nanoseconds = 0 \<rparr>"
      "ToggleFavorite ''ad1''" "(sampleForm ''5000'', sampleStore)"]
  show ?thesis by simp
qed

text \<open>
  C9 as the specification states it fails: a toggle without an identity shows no
  message; the form's message is still empty afterwards.
\<close>

theorem silent_toggle_counterexample:
  "message (fst (dispatch (Some Firestore) None ''ad7'' \<lparr> seconds = 700, nanoseconds = 0 \<rparr>
      (ToggleFavorite ''ad1'') (sampleForm ''5000'', sampleStore))) = [] \<and>
   toggleFavorite (Some Firestore) None ''ad1'' sampleStore = sampleStore"
  by (simp add: sampleForm_def toggleFavorite_def)

end
